theory Spec2Isabelle
  imports Complex_Main "HOL-Library.Sublist" "HOL-Library.Char_ord" "HOL-Library.List_Lexorder"
    "HOL-Library.Product_Lexorder"
begin

section \<open>Values of the request body\<close>

text \<open>
  The backend reads its input from \<^verbatim>\<open>req.body\<close>, the result of \<^verbatim>\<open>express.json()\<close>, and from
  \<^verbatim>\<open>req.query\<close>. A body value is a JavaScript value. Numbers are modelled as exact
  rationals: the rounding of IEEE doubles, \<^verbatim>\<open>NaN\<close> and the infinities are not part of the
  model (\<^verbatim>\<open>JSON.parse\<close> never yields \<^verbatim>\<open>NaN\<close>, so \<^verbatim>\<open>Number.isNaN\<close> is false on every
  number of a body). Strings are lists of characters, read as ASCII text.
\<close>

datatype jsval =
    JUndefined
  | JNull
  | JBool bool
  | JNum rat
  | JStr string
  | JArr "jsval list"
  | JObj "(string \<times> jsval) list"

text \<open>A parsed body: the value of each property, \<open>JUndefined\<close> for a property that is absent.\<close>

type_synonym body = "string \<Rightarrow> jsval"

text \<open>The body that \<^verbatim>\<open>JSON.parse\<close> builds from an object: the last entry of a key is the one read.\<close>

definition json_body :: "(string \<times> jsval) list \<Rightarrow> body" where
  "json_body kvs k = (case map_of (rev kvs) k of None \<Rightarrow> JUndefined | Some v \<Rightarrow> v)"

fun typeof :: "jsval \<Rightarrow> string" where
  "typeof JUndefined = ''undefined''"
| "typeof JNull = ''object''"
| "typeof (JBool _) = ''boolean''"
| "typeof (JNum _) = ''number''"
| "typeof (JStr _) = ''string''"
| "typeof (JArr _) = ''object''"
| "typeof (JObj _) = ''object''"



fun num_of :: "jsval \<Rightarrow> rat" where
  "num_of (JNum r) = r"
| "num_of _ = 0"

section \<open>String sanitization\<close>






section \<open>Products and the collection\<close>

text \<open>
  The fields of a stored document, as \<^verbatim>\<open>ProductSchema\<close> declares them. The collection is the
  list of its documents in insertion order. Time is a number that the caller supplies
  with each write (\<^verbatim>\<open>timestamps: true\<close>); the identifier of a new document is supplied by
  the caller as well, as the store assigns it.
\<close>

record product =
  oid :: string
  name :: string
  price :: rat
  description :: string
  category :: string
  stock :: rat
  createdAt :: nat
  updatedAt :: nat

type_synonym store = "product list"










text \<open>The first document that satisfies a filter is changed; the changed document is returned (\<^verbatim>\<open>new: true\<close>).\<close>

fun update_first :: "(product \<Rightarrow> bool) \<Rightarrow> (product \<Rightarrow> product) \<Rightarrow> store \<Rightarrow> product option \<times> store" where
  "update_first c u [] = (None, [])"
| "update_first c u (p # ps) =
     (if c p then (Some (u p), u p # ps)
      else (case update_first c u ps of (r, ps') \<Rightarrow> (r, p # ps')))"

definition findById :: "string \<Rightarrow> store \<Rightarrow> product option" where
  "findById i docs = find (\<lambda>p. oid p = i) docs"


text \<open>
  \<^verbatim>\<open>findOneAndUpdate(filter, { $inc: { stock: increment } }, { new: true, ... })\<close>: one request
  to the store, which tests the filter and adds the increment to the document it finds.
  Update validators do not run on \<^verbatim>\<open>$inc\<close>.
\<close>

definition findOneAndUpdate_inc ::
  "nat \<Rightarrow> (product \<Rightarrow> bool) \<Rightarrow> rat \<Rightarrow> store \<Rightarrow> product option \<times> store" where
  "findOneAndUpdate_inc now flt increment docs =
     update_first flt (\<lambda>p. p\<lparr>stock := stock p + increment, updatedAt := now\<rparr>) docs"


text \<open>
  \<^verbatim>\<open>mongoose.Types.ObjectId.isValid(id)\<close> on the string of a route parameter: the textual
  form of an identifier, 24 hexadecimal digits.
\<close>

definition isHexDigit :: "char \<Rightarrow> bool" where
  "isHexDigit c = (c \<in> set ''0123456789abcdefABCDEF'')"

definition isValidObjectId :: "string \<Rightarrow> bool" where
  "isValidObjectId i = (length i = 24 \<and> list_all isHexDigit i)"

section \<open>Replies\<close>

record pagination =
  page :: int
  limit :: int
  total :: int
  pages :: int
  hasNext :: bool
  hasPrev :: bool

datatype payload =
    ErrorMessage string string
  | ErrorOnly string
  | ProductJson product
  | ProductList "product list" pagination
  | SearchResult "product list" nat
  | Deleted string product
  | UpstreamJson jsval

datatype reply = Reply (status: nat) (payload: payload)

definition invalid_id :: reply where
  "invalid_id = Reply 400 (ErrorMessage ''Invalid ID'' ''Product ID is not valid'')"

definition not_found :: reply where
  "not_found = Reply 404 (ErrorMessage ''Not found'' ''Product not found'')"


section \<open>The routes of the backend\<close>

subsection \<open>Create\<close>



subsection \<open>Full replace\<close>




subsection \<open>Partial update\<close>




subsection \<open>Stock mutation\<close>

text \<open>
  \<^verbatim>\<open>router.patch("/:id/stock")\<close>. The filter of the single update request carries the guard
  \<^verbatim>\<open>stock: { $gte: quantity }\<close> exactly when the operation is the string \<^verbatim>\<open>"decrement"\<close>;
  the existence lookup runs only when the update found nothing.
\<close>

definition stock_filter :: "string \<Rightarrow> jsval \<Rightarrow> rat \<Rightarrow> product \<Rightarrow> bool" where
  "stock_filter i operation quantity p =
     (oid p = i \<and> (if operation = JStr ''decrement'' then quantity \<le> stock p else True))"

definition patch_stock :: "nat \<Rightarrow> string \<Rightarrow> body \<Rightarrow> store \<Rightarrow> reply \<times> store" where
  "patch_stock now i b docs =
     (let quantity = b ''quantity''; operation = b ''operation'' in
        if \<not> isValidObjectId i then (invalid_id, docs)
        else if typeof quantity \<noteq> ''number'' \<or> num_of quantity \<le> 0 then
          (Reply 400 (ErrorMessage ''Invalid quantity'' ''Quantity must be a positive number''), docs)
        else
          let increment = (if operation = JStr ''decrement''
                           then - num_of quantity else num_of quantity)
          in
            (case findOneAndUpdate_inc now (stock_filter i operation (num_of quantity))
                    increment docs of
               (Some updated, docs') \<Rightarrow> (Reply 200 (ProductJson updated), docs')
             | (None, docs') \<Rightarrow>
                 (case findById i docs of
                    None \<Rightarrow> (not_found, docs)
                  | Some product \<Rightarrow>
                      (Reply 400 (ErrorMessage ''Insufficient stock''
                                    ''Not enough stock to decrement''), docs))))"

subsection \<open>Delete\<close>


subsection \<open>Sequences of writes\<close>




section \<open>Reading the collection\<close>

subsection \<open>Sorting\<close>

text \<open>
  The store sorts by one field, ascending for \<open>1\<close> and descending otherwise. The key of a
  document is a pair, so that numbers compare as numbers and texts as texts; a field the
  schema does not have gives every document the same key. Documents with equal keys keep
  their order in the collection.
\<close>

definition sort_key_of :: "string \<Rightarrow> product \<Rightarrow> rat \<times> string" where
  "sort_key_of field p =
     (if field = ''name'' then (0, name p)
      else if field = ''price'' then (price p, [])
      else if field = ''description'' then (0, description p)
      else if field = ''category'' then (0, category p)
      else if field = ''stock'' then (stock p, [])
      else if field = ''createdAt'' then (of_nat (createdAt p), [])
      else if field = ''updatedAt'' then (of_nat (updatedAt p), [])
      else if field = ''_id'' then (0, oid p)
      else (0, []))"

definition sort_docs :: "string \<Rightarrow> int \<Rightarrow> store \<Rightarrow> store" where
  "sort_docs field ord docs =
     (if ord = 1 then sort_key (sort_key_of field) docs
      else rev (sort_key (sort_key_of field) (rev docs)))"

subsection \<open>List\<close>

text \<open>
  The query of \<^verbatim>\<open>router.get("/")\<close>. The numeric parameters are given as \<^verbatim>\<open>parseInt\<close> and
  \<^verbatim>\<open>parseFloat\<close> return them: \<open>None\<close> is \<^verbatim>\<open>NaN\<close> for page and limit (absent or not a
  number), and an absent or empty parameter for the price bounds (a bound that is present
  and does not parse is outside the model). The other parameters are the raw strings.
\<close>

record list_query =
  q_page :: "int option"
  q_limit :: "int option"
  q_sortBy :: "string option"
  q_order :: "string option"
  q_category :: "string option"
  q_minPrice :: "rat option"
  q_maxPrice :: "rat option"
  q_inStock :: "string option"

text \<open>\<^verbatim>\<open>parseInt(x) || d\<close>: \<^verbatim>\<open>NaN\<close> and \<open>0\<close> are falsy.\<close>

definition or_default :: "int option \<Rightarrow> int \<Rightarrow> int" where
  "or_default v d = (case v of None \<Rightarrow> d | Some n \<Rightarrow> if n = 0 then d else n)"

definition effective_page :: "list_query \<Rightarrow> int" where
  "effective_page q = max 1 (or_default (q_page q) 1)"

definition effective_limit :: "list_query \<Rightarrow> int" where
  "effective_limit q = min 100 (max 1 (or_default (q_limit q) 10))"

text \<open>The filter object, as a test on a document: each part is added only when its parameter is truthy.\<close>

definition matches :: "list_query \<Rightarrow> product \<Rightarrow> bool" where
  "matches q p =
     ((case q_category q of
         None \<Rightarrow> True
       | Some c \<Rightarrow> if c = [] then True else category p = c)
      \<and> (case q_minPrice q of None \<Rightarrow> True | Some lo \<Rightarrow> lo \<le> price p)
      \<and> (case q_maxPrice q of None \<Rightarrow> True | Some hi \<Rightarrow> price p \<le> hi)
      \<and> (if q_inStock q = Some ''true'' then 0 < stock p else True))"

definition countDocuments :: "list_query \<Rightarrow> store \<Rightarrow> nat" where
  "countDocuments q docs = length (filter (matches q) docs)"

definition get_products :: "list_query \<Rightarrow> store \<Rightarrow> reply" where
  "get_products q docs =
     (let pg = effective_page q;
          lim = effective_limit q;
          skip = (pg - 1) * lim;
          sortField = (case q_sortBy q of
                         None \<Rightarrow> ''createdAt''
                       | Some f \<Rightarrow> if f = [] then ''createdAt'' else f);
          sortOrder = (if q_order q = Some ''asc'' then 1 else - 1);
          products = take (nat lim) (drop (nat skip)
                       (sort_docs sortField sortOrder (filter (matches q) docs)));
          tot = int (countDocuments q docs)
      in Reply 200 (ProductList products
           \<lparr>page = pg, limit = lim, total = tot,
            pages = \<lceil>(of_int tot :: rat) / of_int lim\<rceil>,
            hasNext = (pg * lim < tot),
            hasPrev = (1 < pg)\<rparr>))"

subsection \<open>Search\<close>










section \<open>The gateway\<close>

text \<open>
  The error caught by \<^verbatim>\<open>proxyRequest\<close>: whether \<^verbatim>\<open>axios.isAxiosError\<close> holds of it, its
  \<^verbatim>\<open>code\<close>, and the status and data of its \<^verbatim>\<open>response\<close>, when it has one.
\<close>

record proxy_error =
  isAxiosError :: bool
  code :: "string option"
  response :: "(nat \<times> jsval) option"

text \<open>What the handler does with the error: it writes a reply, or it calls \<^verbatim>\<open>next(error)\<close>.\<close>

datatype outcome = Sent reply | Next proxy_error

text \<open>The \<^verbatim>\<open>catch\<close> block of \<^verbatim>\<open>proxyRequest\<close>, given the error and \<^verbatim>\<open>res.headersSent\<close>.\<close>

definition proxyRequest_catch :: "proxy_error \<Rightarrow> bool \<Rightarrow> outcome" where
  "proxyRequest_catch error headersSent =
     (if isAxiosError error \<and> code error = Some ''ECONNREFUSED'' then
        Sent (Reply 503 (ErrorMessage ''Backend service unavailable''
          ''The backend service is currently unavailable. Please try again later.''))
      else if isAxiosError error \<and>
              (code error = Some ''ETIMEDOUT'' \<or> code error = Some ''ECONNABORTED'') then
        Sent (Reply 504 (ErrorMessage ''Backend service timeout''
          ''The backend service did not respond in time. Please try again later.''))
      else
        (case (if isAxiosError error then response error else None) of
           Some (st, data) \<Rightarrow> Sent (Reply st (UpstreamJson data))
         | None \<Rightarrow>
             if \<not> headersSent then Sent (Reply 502 (ErrorOnly ''bad gateway''))
             else Next error))"

section \<open>The stock invariant\<close>


section \<open>The validity of a field, in the words of the specification\<close>







section \<open>Clean text\<close>






section \<open>A sample document\<close>

text \<open>The product of the scenario in the API reference: a laptop with 50 in stock.\<close>

definition laptop_id :: string where
  "laptop_id = ''507f1f77bcf86cd799439011''"


definition laptop :: product where
  "laptop = \<lparr>oid = laptop_id, name = ''Laptop'', price = 999, description = ''Gaming laptop'',
             category = ''Electronics'', stock = 50, createdAt = 10, updatedAt = 10\<rparr>"

section \<open>Facts about trimming and sanitizing\<close>






section \<open>Facts about the store operations\<close>

lemma update_first_fst: "fst (update_first c u docs) = map_option u (find c docs)"
  by (induction docs) (auto split: prod.splits)

lemma update_first_none: "find c docs = None \<Longrightarrow> update_first c u docs = (None, docs)"
  by (induction docs) (auto split: prod.splits if_splits)



lemma find_None_all: "find c docs = None \<Longrightarrow> x \<in> set docs \<Longrightarrow> \<not> c x"
  by (simp add: find_None_iff)

lemma find_Some_mem: "find c docs = Some p \<Longrightarrow> p \<in> set docs \<and> c p"
  by (auto simp: find_Some_iff)

lemma laptop_id_valid: "isValidObjectId laptop_id"
  by (simp add: isValidObjectId_def laptop_id_def isHexDigit_def)

lemma findById_laptop: "findById laptop_id [laptop] = Some laptop"
  by (simp add: findById_def laptop_def)

section \<open>Facts about the stock of a document\<close>
































section \<open>Facts about pages\<close>

lemma sort_docs_Nil: "sort_docs f ord [] = []"
  by (simp add: sort_docs_def)

lemma effective_page_ge: "1 \<le> effective_page q"
  by (simp add: effective_page_def)

lemma effective_limit_range: "1 \<le> effective_limit q \<and> effective_limit q \<le> 100"
  by (simp add: effective_limit_def)

lemma ceiling_bracket:
  fixes t l :: int
  assumes "0 < l"
  shows "(\<lceil>(of_int t :: rat) / of_int l\<rceil> - 1) * l < t \<and> t \<le> \<lceil>(of_int t :: rat) / of_int l\<rceil> * l"
proof -
  let ?c = "\<lceil>(of_int t :: rat) / of_int l\<rceil>"
  have lpos: "(0::rat) < of_int l" using assms by simp
  have "(of_int t :: rat) / of_int l \<le> of_int ?c" by (rule le_of_int_ceiling)
  then have "(of_int t :: rat) \<le> of_int ?c * of_int l"
    using lpos by (simp only: pos_divide_le_eq)
  then have up: "t \<le> ?c * l"
    by (metis of_int_le_iff of_int_mult)
  have "of_int (?c - 1) < (of_int t :: rat) / of_int l"
    using ceiling_correct [of "(of_int t :: rat) / of_int l"] by simp
  then have "of_int (?c - 1) * of_int l < (of_int t :: rat)"
    using lpos by (simp only: pos_less_divide_eq)
  then have "(?c - 1) * l < t"
    by (metis of_int_less_iff of_int_mult)
  with up show ?thesis by simp
qed

section \<open>Facts about clean text\<close>


































section \<open>Facts about searching and sorting\<close>








section \<open>Facts about update sets\<close>












section \<open>Facts about create and full replace\<close>







section \<open>Stock mutation: the operation field\<close>



section \<open>Stock mutation: the operation "set"\<close>

text \<open>
  C2. The API reference gives \<^verbatim>\<open>{"quantity":100,"operation":"set"}\<close> as the request that
  sets the absolute stock value. On the laptop with 50 in stock the route answers 200
  with a stock of 150: the quantity is added to the former stock, not assigned.
\<close>

theorem set_operation_adds_to_stock:
  "fst (patch_stock 20 laptop_id
          (json_body [(''quantity'', JNum 100), (''operation'', JStr ''set'')]) [laptop])
     = Reply 200 (ProductJson (laptop\<lparr>stock := 150, updatedAt := 20\<rparr>))"
  by (simp add: patch_stock_def Let_def json_body_def laptop_id_valid stock_filter_def
        findOneAndUpdate_inc_def laptop_def)

theorem set_operation_adds_to_stock_witness:
  "fst (patch_stock 20 laptop_id
          (json_body [(''quantity'', JNum 100), (''operation'', JStr ''set'')]) [laptop])
     \<noteq> Reply 200 (ProductJson (laptop\<lparr>stock := 100, updatedAt := 20\<rparr>))"
proof -
  have "stock (laptop\<lparr>stock := 150, updatedAt := 20\<rparr>) \<noteq> stock (laptop\<lparr>stock := 100, updatedAt := 20\<rparr>)"
    by simp
  then have "laptop\<lparr>stock := 150, updatedAt := 20\<rparr> \<noteq> laptop\<lparr>stock := 100, updatedAt := 20\<rparr>"
    by metis
  then show ?thesis
    using set_operation_adds_to_stock by simp
qed

section \<open>Stock mutation: telling a missing product from a failed guard\<close>

text \<open>
  C3. For a stock mutation with a valid identifier and a valid quantity whose conditional
  update finds no document, the route looks the identifier up: it answers 404 (not
  found) exactly when the collection has no product with that identifier, and 400
  (insufficient stock) exactly when the product exists and the guard of a decrement
  failed on it; the collection is left as it was.
\<close>

theorem stock_failure_disambiguation:
  assumes "isValidObjectId i" and "b ''quantity'' = JNum q" and "0 < q"
      and "fst (findOneAndUpdate_inc now (stock_filter i (b ''operation'') q)
                 (if b ''operation'' = JStr ''decrement'' then - q else q) docs) = None"
  shows "(fst (patch_stock now i b docs) = not_found \<longleftrightarrow> findById i docs = None)
       \<and> (fst (patch_stock now i b docs)
            = Reply 400 (ErrorMessage ''Insufficient stock'' ''Not enough stock to decrement'')
          \<longleftrightarrow> (\<exists>p. findById i docs = Some p \<and> b ''operation'' = JStr ''decrement'' \<and> stock p < q))
       \<and> snd (patch_stock now i b docs) = docs"
proof -
  let ?flt = "stock_filter i (b ''operation'') q"
  let ?d = "if b ''operation'' = JStr ''decrement'' then - q else q"
  have n: "find ?flt docs = None"
    using assms(4) by (simp add: findOneAndUpdate_inc_def update_first_fst)
  then have u: "findOneAndUpdate_inc now ?flt ?d docs = (None, docs)"
    by (simp add: findOneAndUpdate_inc_def update_first_none)
  have ps: "patch_stock now i b docs =
      (case findById i docs of
         None \<Rightarrow> (not_found, docs)
       | Some product \<Rightarrow>
           (Reply 400 (ErrorMessage ''Insufficient stock'' ''Not enough stock to decrement''), docs))"
    using assms(1-3) u
    by (cases "b ''operation'' = JStr ''decrement''") (simp_all add: patch_stock_def Let_def)
  have g: "b ''operation'' = JStr ''decrement'' \<and> stock p < q" if "findById i docs = Some p" for p
  proof -
    from that have "p \<in> set docs" "oid p = i"
      using find_Some_mem [of "\<lambda>p. oid p = i" docs p] by (simp_all add: findById_def)
    with find_None_all [OF n, of p] show ?thesis
      by (auto simp: stock_filter_def split: if_splits)
  qed
  show ?thesis
  proof (cases "findById i docs")
    case None
    with ps show ?thesis by (simp add: not_found_def)
  next
    case (Some p)
    with ps g [OF Some] show ?thesis by (simp add: not_found_def)
  qed
qed

theorem stock_failure_disambiguation_witness:
  "isValidObjectId laptop_id
   \<and> json_body [(''quantity'', JNum 51), (''operation'', JStr ''decrement'')] ''quantity'' = JNum 51
   \<and> (0::rat) < 51
   \<and> fst (findOneAndUpdate_inc 20
            (stock_filter laptop_id
               (json_body [(''quantity'', JNum 51), (''operation'', JStr ''decrement'')] ''operation'') 51)
            (- 51) [laptop]) = None
   \<and> fst (patch_stock 20 laptop_id
            (json_body [(''quantity'', JNum 51), (''operation'', JStr ''decrement'')]) [laptop])
       = Reply 400 (ErrorMessage ''Insufficient stock'' ''Not enough stock to decrement'')
   \<and> fst (patch_stock 20 laptop_id
            (json_body [(''quantity'', JNum 51), (''operation'', JStr ''decrement'')]) [laptop])
       \<noteq> not_found"
proof -
  let ?b = "json_body [(''quantity'', JNum 51), (''operation'', JStr ''decrement'')]"
  have q: "?b ''quantity'' = JNum 51" by (simp add: json_body_def)
  have op: "?b ''operation'' = JStr ''decrement''" by (simp add: json_body_def)
  have pos: "(0::rat) < 51" by simp
  have st: "stock laptop = 50" by (simp add: laptop_def)
  have m: "fst (findOneAndUpdate_inc 20 (stock_filter laptop_id (?b ''operation'') 51)
                 (if ?b ''operation'' = JStr ''decrement'' then - 51 else 51) [laptop]) = None"
    by (simp add: op findOneAndUpdate_inc_def stock_filter_def st)
  show ?thesis
    using stock_failure_disambiguation [OF laptop_id_valid q pos m]
      laptop_id_valid q op m findById_laptop st
    by (simp add: not_found_def)
qed

section \<open>The gateway: mapping a failure to a reply\<close>

text \<open>
  C8. When forwarding fails, the first rule that applies decides: a refused connection is
  answered 503 and a timeout or abort 504, both with an error and a message; a transport
  error that carries a response of the upstream relays its status and body; any other
  failure is answered 502 with only an error when nothing of the reply has been written,
  and is passed on to the enclosing handler otherwise.
\<close>

theorem gateway_failure_mapping:
  "(isAxiosError e \<and> code e = Some ''ECONNREFUSED'' \<longrightarrow>
      proxyRequest_catch e hs = Sent (Reply 503 (ErrorMessage ''Backend service unavailable''
        ''The backend service is currently unavailable. Please try again later.'')))
   \<and> (isAxiosError e \<and> code e \<noteq> Some ''ECONNREFUSED''
        \<and> (code e = Some ''ETIMEDOUT'' \<or> code e = Some ''ECONNABORTED'') \<longrightarrow>
      proxyRequest_catch e hs = Sent (Reply 504 (ErrorMessage ''Backend service timeout''
        ''The backend service did not respond in time. Please try again later.'')))
   \<and> (isAxiosError e \<and> code e \<noteq> Some ''ECONNREFUSED'' \<and> code e \<noteq> Some ''ETIMEDOUT''
        \<and> code e \<noteq> Some ''ECONNABORTED'' \<and> response e = Some (st, d) \<longrightarrow>
      proxyRequest_catch e hs = Sent (Reply st (UpstreamJson d)))
   \<and> (\<not> (isAxiosError e \<and> (code e = Some ''ECONNREFUSED'' \<or> code e = Some ''ETIMEDOUT''
            \<or> code e = Some ''ECONNABORTED'' \<or> response e \<noteq> None)) \<longrightarrow>
      proxyRequest_catch e hs
        = (if hs then Next e else Sent (Reply 502 (ErrorOnly ''bad gateway''))))"
  by (cases "response e") (auto simp: proxyRequest_catch_def)

theorem gateway_failure_mapping_witness:
  "proxyRequest_catch \<lparr>isAxiosError = True, code = Some ''ECONNREFUSED'', response = None\<rparr> False
     = Sent (Reply 503 (ErrorMessage ''Backend service unavailable''
        ''The backend service is currently unavailable. Please try again later.''))
   \<and> proxyRequest_catch \<lparr>isAxiosError = True, code = Some ''ECONNABORTED'', response = None\<rparr> False
     = Sent (Reply 504 (ErrorMessage ''Backend service timeout''
        ''The backend service did not respond in time. Please try again later.''))
   \<and> proxyRequest_catch
        \<lparr>isAxiosError = True, code = Some ''ERR_BAD_RESPONSE'', response = Some (500, JNull)\<rparr> False
     = Sent (Reply 500 (UpstreamJson JNull))
   \<and> proxyRequest_catch \<lparr>isAxiosError = False, code = None, response = None\<rparr> False
     = Sent (Reply 502 (ErrorOnly ''bad gateway''))
   \<and> proxyRequest_catch \<lparr>isAxiosError = False, code = None, response = None\<rparr> True
     = Next \<lparr>isAxiosError = False, code = None, response = None\<rparr>"
  using
    gateway_failure_mapping
      [where e = "\<lparr>isAxiosError = True, code = Some ''ECONNREFUSED'', response = None\<rparr>"
         and hs = False]
    gateway_failure_mapping
      [where e = "\<lparr>isAxiosError = True, code = Some ''ECONNABORTED'', response = None\<rparr>"
         and hs = False]
    gateway_failure_mapping
      [where e = "\<lparr>isAxiosError = True, code = Some ''ERR_BAD_RESPONSE'',
                   response = Some (500, JNull)\<rparr>"
         and hs = False and st = 500 and d = JNull]
    gateway_failure_mapping
      [where e = "\<lparr>isAxiosError = False, code = None, response = None\<rparr>" and hs = False]
    gateway_failure_mapping
      [where e = "\<lparr>isAxiosError = False, code = None, response = None\<rparr>" and hs = True]
  by simp

section \<open>The stock of a product is never negative\<close>




section \<open>List: pagination\<close>

text \<open>
  C4, as the code has it. With the effective page p = max(1, parsed page or 1) and the
  effective limit l = min(100, max(1, parsed limit or 10)), the reply of a list request
  is 200; its products are the first l of the sorted matching documents after the first
  (p - 1) * l of them; total is the number of matching documents, whatever page and limit
  are; pages is the ceiling of total / l (the least number whose product with l reaches
  total); hasNext is p * l < total and hasPrev is p > 1. When no document matches, the
  reply has no products, total 0, pages 0, hasNext false, and hasPrev still p > 1: it is
  false for the first page only.
\<close>

theorem list_pagination:
  "get_products q docs =
     Reply 200 (ProductList
       (take (nat (effective_limit q))
          (drop (nat ((effective_page q - 1) * effective_limit q))
             (sort_docs (case q_sortBy q of None \<Rightarrow> ''createdAt''
                         | Some f \<Rightarrow> if f = [] then ''createdAt'' else f)
                (if q_order q = Some ''asc'' then 1 else - 1)
                (filter (matches q) docs))))
       \<lparr>page = effective_page q, limit = effective_limit q,
        total = int (length (filter (matches q) docs)),
        pages = \<lceil>(of_int (int (length (filter (matches q) docs))) :: rat)
                   / of_int (effective_limit q)\<rceil>,
        hasNext = (effective_page q * effective_limit q < int (length (filter (matches q) docs))),
        hasPrev = (1 < effective_page q)\<rparr>)
   \<and> effective_page q = max 1 (case q_page q of None \<Rightarrow> 1 | Some n \<Rightarrow> if n = 0 then 1 else n)
   \<and> effective_limit q
        = min 100 (max 1 (case q_limit q of None \<Rightarrow> 10 | Some n \<Rightarrow> if n = 0 then 10 else n))
   \<and> 0 \<le> (effective_page q - 1) * effective_limit q
   \<and> (\<lceil>(of_int (int (length (filter (matches q) docs))) :: rat) / of_int (effective_limit q)\<rceil> - 1)
        * effective_limit q < int (length (filter (matches q) docs))
   \<and> int (length (filter (matches q) docs))
        \<le> \<lceil>(of_int (int (length (filter (matches q) docs))) :: rat) / of_int (effective_limit q)\<rceil>
            * effective_limit q
   \<and> countDocuments (q\<lparr>q_page := pg', q_limit := lim'\<rparr>) docs = countDocuments q docs
   \<and> (filter (matches q) docs = [] \<longrightarrow>
        get_products q docs =
          Reply 200 (ProductList []
            \<lparr>page = effective_page q, limit = effective_limit q, total = 0, pages = 0,
             hasNext = False, hasPrev = (1 < effective_page q)\<rparr>))"
proof -
  have l: "0 < effective_limit q" and p: "1 \<le> effective_page q"
    using effective_limit_range [of q] effective_page_ge [of q] by simp_all
  have g: "get_products q docs =
     Reply 200 (ProductList
       (take (nat (effective_limit q))
          (drop (nat ((effective_page q - 1) * effective_limit q))
             (sort_docs (case q_sortBy q of None \<Rightarrow> ''createdAt''
                         | Some f \<Rightarrow> if f = [] then ''createdAt'' else f)
                (if q_order q = Some ''asc'' then 1 else - 1)
                (filter (matches q) docs))))
       \<lparr>page = effective_page q, limit = effective_limit q,
        total = int (length (filter (matches q) docs)),
        pages = \<lceil>(of_int (int (length (filter (matches q) docs))) :: rat)
                   / of_int (effective_limit q)\<rceil>,
        hasNext = (effective_page q * effective_limit q < int (length (filter (matches q) docs))),
        hasPrev = (1 < effective_page q)\<rparr>)"
    by (simp add: get_products_def Let_def countDocuments_def)
  have d1: "effective_page q = max 1 (case q_page q of None \<Rightarrow> 1 | Some n \<Rightarrow> if n = 0 then 1 else n)"
    by (simp add: effective_page_def or_default_def)
  have d2: "effective_limit q
        = min 100 (max 1 (case q_limit q of None \<Rightarrow> 10 | Some n \<Rightarrow> if n = 0 then 10 else n))"
    by (simp add: effective_limit_def or_default_def)
  have sk: "0 \<le> (effective_page q - 1) * effective_limit q"
    using l p by simp
  have cnt: "countDocuments (q\<lparr>q_page := pg', q_limit := lim'\<rparr>) docs = countDocuments q docs"
    by (simp add: countDocuments_def matches_def [abs_def])
  have emp: "get_products q docs =
          Reply 200 (ProductList []
            \<lparr>page = effective_page q, limit = effective_limit q, total = 0, pages = 0,
             hasNext = False, hasPrev = (1 < effective_page q)\<rparr>)"
    if "filter (matches q) docs = []"
  proof -
    have "\<not> effective_page q * effective_limit q < 0"
      using l p by (simp add: not_less)
    then show ?thesis
      by (simp add: g that sort_docs_Nil)
  qed
  show ?thesis
    using g d1 d2 sk cnt emp ceiling_bracket [OF l, of "int (length (filter (matches q) docs))"]
    by blast
qed

theorem list_pagination_witness:
  "get_products \<lparr>q_page = None, q_limit = None, q_sortBy = None, q_order = None,
      q_category = Some ''Electronics'', q_minPrice = Some 100, q_maxPrice = Some 1000,
      q_inStock = None\<rparr> [laptop]
     = Reply 200 (ProductList [laptop]
         \<lparr>page = 1, limit = 10, total = 1, pages = 1, hasNext = False, hasPrev = False\<rparr>)
   \<and> filter (matches \<lparr>q_page = None, q_limit = None, q_sortBy = None, q_order = None,
      q_category = Some ''Electronics'', q_minPrice = Some 100, q_maxPrice = Some 500,
      q_inStock = None\<rparr>) [laptop] = []
   \<and> get_products \<lparr>q_page = None, q_limit = None, q_sortBy = None, q_order = None,
      q_category = Some ''Electronics'', q_minPrice = Some 100, q_maxPrice = Some 500,
      q_inStock = None\<rparr> [laptop]
     = Reply 200 (ProductList []
         \<lparr>page = 1, limit = 10, total = 0, pages = 0, hasNext = False, hasPrev = False\<rparr>)"
proof -
  let ?q1 = "\<lparr>q_page = None, q_limit = None, q_sortBy = None, q_order = None,
      q_category = Some ''Electronics'', q_minPrice = Some 100, q_maxPrice = Some 1000,
      q_inStock = None\<rparr>"
  let ?q2 = "\<lparr>q_page = None, q_limit = None, q_sortBy = None, q_order = None,
      q_category = Some ''Electronics'', q_minPrice = Some 100, q_maxPrice = Some 500,
      q_inStock = None\<rparr>"
  have m1: "filter (matches ?q1) [laptop] = [laptop]"
    by (simp add: matches_def laptop_def)
  have m2: "filter (matches ?q2) [laptop] = []"
    by (simp add: matches_def laptop_def)
  have pl: "effective_page ?q1 = 1" "effective_limit ?q1 = 10"
    "effective_page ?q2 = 1" "effective_limit ?q2 = 10"
    by (simp_all add: effective_page_def effective_limit_def or_default_def)
  have c: "\<lceil>(1::rat) / 10\<rceil> = 1"
    by (rule ceiling_unique) simp_all
  have a: "get_products ?q1 [laptop]
     = Reply 200 (ProductList [laptop]
         \<lparr>page = 1, limit = 10, total = 1, pages = 1, hasNext = False, hasPrev = False\<rparr>)"
    using list_pagination [where q = ?q1 and docs = "[laptop]" and pg' = None and lim' = None]
    unfolding m1 pl
    by (simp add: c sort_docs_def)
  have b: "get_products ?q2 [laptop]
     = Reply 200 (ProductList []
         \<lparr>page = 1, limit = 10, total = 0, pages = 0, hasNext = False, hasPrev = False\<rparr>)"
  proof -
    have "get_products ?q2 [laptop] =
          Reply 200 (ProductList []
            \<lparr>page = effective_page ?q2, limit = effective_limit ?q2, total = 0, pages = 0,
             hasNext = False, hasPrev = (1 < effective_page ?q2)\<rparr>)"
      using list_pagination [where q = ?q2 and docs = "[laptop]" and pg' = None and lim' = None] m2
      by blast
    then show ?thesis by (simp add: pl)
  qed
  show ?thesis using a m2 b by blast
qed

text \<open>C4 as stated fails: the second page of an empty result has hasPrev true.\<close>

theorem list_hasPrev_on_empty_result:
  "get_products \<lparr>q_page = Some 2, q_limit = None, q_sortBy = None, q_order = None,
      q_category = Some ''Electronics'', q_minPrice = Some 100, q_maxPrice = Some 500,
      q_inStock = None\<rparr> []
     = Reply 200 (ProductList []
         \<lparr>page = 2, limit = 10, total = 0, pages = 0, hasNext = False, hasPrev = True\<rparr>)"
  by (simp add: get_products_def Let_def effective_page_def effective_limit_def or_default_def
        countDocuments_def sort_docs_def)

section \<open>Sanitized text\<close>




section \<open>Search\<close>




section \<open>Partial update\<close>



section \<open>Full replace\<close>




end
